theory Spec2Isabelle
  imports Complex_Main
begin

section \<open>Go values shared by the two packages\<close>

text \<open>
  A Go \<open>error\<close> value. The front end distinguishes exactly one dynamic type,
  \<open>*task.TaskRunError\<close>, by a type assertion; the constructor carries what its
  \<open>ExitCode()\<close> method returns and the text of \<open>Error()\<close>. Every other error
  is \<open>OtherError\<close> with its text.
\<close>

datatype error = TaskRunError int string | OtherError string

fun Error :: "error \<Rightarrow> string" where
  "Error (TaskRunError c m) = m"
| "Error (OtherError m) = m"

text \<open>
  A Go \<open>float64\<close> as far as comparison goes: the finite values are rationals (both
  zeros are \<open>Finite 0\<close>), and \<open>NaN\<close> compares false with everything, as IEEE 754
  and the Go specification say.
\<close>

datatype float64 = NaN | NegInf | Finite rat | PosInf

fun f64_lt :: "float64 \<Rightarrow> float64 \<Rightarrow> bool" where
  "f64_lt (Finite a) (Finite b) = (a < b)"
| "f64_lt NegInf (Finite b) = True"
| "f64_lt NegInf PosInf = True"
| "f64_lt (Finite a) PosInf = True"
| "f64_lt _ _ = False"

fun f64_ge :: "float64 \<Rightarrow> float64 \<Rightarrow> bool" where
  "f64_ge (Finite a) (Finite b) = (b \<le> a)"
| "f64_ge (Finite a) NegInf = True"
| "f64_ge PosInf (Finite b) = True"
| "f64_ge PosInf NegInf = True"
| "f64_ge PosInf PosInf = True"
| "f64_ge NegInf NegInf = True"
| "f64_ge (Finite a) _ = False"
| "f64_ge PosInf NaN = False"
| "f64_ge NegInf _ = False"
| "f64_ge NaN _ = False"

section \<open>Package taskmain: the data\<close>

text \<open>\<open>taskfile.Output\<close>: the style name and the two group templates.\<close>

record Group =
  Begin :: string
  End :: string

record Output =
  Name :: string
  Group :: Group

text \<open>
  The flag variables of \<open>Task\<close> as \<open>pflags.Parse(arguments)\<close> leaves them
  (\<open>pflag\<close> is an external library; its result is the input of the model). The
  variable \<open>output\<close> is the field \<open>output_flag\<close>.
\<close>

record flags =
  versionFlag :: bool
  helpFlag :: bool
  init :: bool
  list :: bool
  listAll :: bool
  status :: bool
  force :: bool
  watch :: bool
  verbose :: bool
  silent :: bool
  dry :: bool
  summary :: bool
  exitCode :: bool
  parallel :: bool
  concurrency :: int
  dir :: string
  entrypoint :: string
  output_flag :: Output
  color :: bool
  interval :: string

text \<open>The defaults the flag declarations of \<open>Task\<close> give (lines 80 to 101).\<close>

definition default_flags :: flags where
  "default_flags =
     \<lparr>versionFlag = False, helpFlag = False, init = False, list = False, listAll = False,
      status = False, force = False, watch = False, verbose = False, silent = False,
      dry = False, summary = False, exitCode = False, parallel = False, concurrency = 0,
      dir = '''', entrypoint = '''',
      output_flag = \<lparr>Name = '''', Group = \<lparr>Begin = '''', End = ''''\<rparr>\<rparr>,
      color = True, interval = ''5s''\<rparr>"

text \<open>
  The positional state of a \<open>pflag.FlagSet\<close>: what \<open>Args()\<close> and
  \<open>ArgsLenAtDash()\<close> return. \<open>Task\<close> owns a local flag set \<open>pflags\<close>, which
  parses \<open>arguments\<close>; the package \<open>pflag\<close> owns another, \<open>pflag.CommandLine\<close>.
\<close>

record FlagSet =
  Args :: "string list"
  ArgsLenAtDash :: int

text \<open>
  Modelled from the spec: \<open>taskfile.Var\<close> is declared outside the source files.
  The spec's variable value is a static string or a shell expression; \<open>Task\<close> builds
  \<open>taskfile.Var{Static: cliArgs}\<close>, the other field empty.
\<close>

record Var =
  Static :: string
  Sh :: string

text \<open>
  Modelled from the spec: \<open>taskfile.Vars\<close> and its method \<open>Set\<close> are declared
  outside the source files. The spec's VariableSet is an insertion-ordered mapping from
  a variable name to a value; \<open>Set\<close> binds a name, in place when the name is bound
  already and at the end otherwise.
\<close>

type_synonym Vars = "(string \<times> Var) list"

fun Vars_Set :: "Vars \<Rightarrow> string \<Rightarrow> Var \<Rightarrow> Vars" where
  "Vars_Set [] key v = [(key, v)]"
| "Vars_Set ((k, w) # vs) key v =
     (if k = key then (key, v) # vs else (k, w) # Vars_Set vs key v)"

text \<open>\<open>taskfile.Call\<close>: a task name and its variables.\<close>

record Call =
  CallTask :: string
  CallVars :: Vars

text \<open>
  What \<open>Setup\<close> loads: the Taskfile, of which the front end reads the parsed version
  and the global variables.
\<close>

record Taskfile =
  ParsedVersion :: "error + float64"
  Vars :: Vars

record Executor =
  Force :: bool
  Watch :: bool
  Verbose :: bool
  Silent :: bool
  Dir :: string
  Dry :: bool
  Entrypoint :: string
  Summary :: bool
  Parallel :: bool
  Color :: bool
  Concurrency :: int
  Interval :: string
  OutputStyle :: Output

datatype Filter = FilterOutInternal | FilterOutNoDesc

record BuildInfo =
  Main_Version :: string
  Main_Sum :: string

text \<open>
  Everything \<open>Task\<close> calls outside its own file, as the input of the model: the
  package variable \<open>version\<close>, the standard library, the executor of
  \<open>github.com/go-task/task/v3\<close>, the two argument parsers of its \<open>args\<close> package,
  \<open>syntax.Quote\<close> of \<open>mvdan.cc/sh/v3\<close>, and the package-level flag set
  \<open>pflag.CommandLine\<close>.
\<close>

record env =
  version :: string
  ReadBuildInfo :: "BuildInfo option"
  Getwd :: "error + string"
  InitTaskfile :: "string \<Rightarrow> error option"
  filepath_Dir :: "string \<Rightarrow> string"
  filepath_Base :: "string \<Rightarrow> string"
  Setup :: "Executor \<Rightarrow> error + Taskfile"
  ListTasks :: "Executor \<Rightarrow> Taskfile \<Rightarrow> Filter list \<Rightarrow> bool"
  CommandLine :: FlagSet
  Quote :: "string \<Rightarrow> error + string"
  ParseV3 :: "string list \<Rightarrow> Call list \<times> Vars"
  ParseV2 :: "string list \<Rightarrow> Call list \<times> Vars"
  Merge :: "Vars \<Rightarrow> Vars \<Rightarrow> Vars"
  Status :: "Executor \<Rightarrow> Taskfile \<Rightarrow> Call list \<Rightarrow> error option"
  Run :: "Executor \<Rightarrow> Taskfile \<Rightarrow> Call list \<Rightarrow> error option"

text \<open>
  What the process does that can be seen from outside, in order: text on standard
  output, a line written through package \<open>log\<close> (to standard error), and the calls
  that touch the file system or the executor.
\<close>

datatype event =
    Stdout string
  | Stderr string
  | PrintDefaults
  | Call_Getwd
  | Call_InitTaskfile string
  | Call_ListTaskNames bool
  | Call_Setup
  | Call_ListTasks "Filter list"
  | Call_InterceptInterruptSignals
  | Call_Status Taskfile "Call list"
  | Call_Run Taskfile "Call list"

text \<open>
  How \<open>Task\<close> ends: it returns to its caller, it calls \<open>os.Exit\<close> (directly or
  through \<open>log.Fatal\<close>, which exits with 1), or a slice expression panics.
\<close>

datatype outcome = Return | Exit int | Panicked

type_synonym behaviour = "event list \<times> outcome"

definition and_then :: "event list \<Rightarrow> behaviour \<Rightarrow> behaviour" where
  "and_then evs r = (evs @ fst r, snd r)"

text \<open>\<open>log.Fatal\<close>: one line, then \<open>os.Exit(1)\<close>.\<close>

definition log_Fatal :: "string \<Rightarrow> behaviour" where
  "log_Fatal m = ([Stderr m], Exit 1)"

section \<open>Package taskmain: the functions\<close>

definition usage :: string where
  "usage =
     ''Usage: task [-ilfwvsd] [--init] [--list] [--force] [--watch] [--verbose] [--silent] [--dir] [--taskfile] [--dry] [--summary] [task...]'' @ [CHR 0x0A] @
     [CHR 0x0A] @
     ''Runs the specified task(s). Falls back to the \"default\" task if no task name'' @ [CHR 0x0A] @
     ''was specified, or lists all tasks if an unknown task name was specified.'' @ [CHR 0x0A] @
     [CHR 0x0A] @
     ''Example: 'task hello' with the following 'Taskfile.yml' file will generate an'' @ [CHR 0x0A] @
     [CHR 0x27] @ ''output.txt' file with the content \"hello\".'' @ [CHR 0x0A] @
     [CHR 0x0A] @
     [CHR 0x27, CHR 0x27, CHR 0x27, CHR 0x0A] @
     ''version: '3'' @ [CHR 0x27, CHR 0x0A] @
     ''tasks:'' @ [CHR 0x0A] @
     ''  hello:'' @ [CHR 0x0A] @
     ''    cmds:'' @ [CHR 0x0A] @
     ''      - echo \"I am going to write a file named 'output.txt' now.\"'' @ [CHR 0x0A] @
     ''      - echo \"hello\" > output.txt'' @ [CHR 0x0A] @
     ''    generates:'' @ [CHR 0x0A] @
     ''      - output.txt'' @ [CHR 0x0A] @
     [CHR 0x27, CHR 0x27, CHR 0x27, CHR 0x0A] @
     [CHR 0x0A] @
     ''Options:'' @ [CHR 0x0A]"

definition getVersion :: "env \<Rightarrow> string" where
  "getVersion env =
     (if version env \<noteq> '''' then version env
      else case ReadBuildInfo env of
        None \<Rightarrow> ''unknown''
      | Some info \<Rightarrow>
          if Main_Version info = '''' then ''unknown''
          else Main_Version info @
            (if Main_Sum info \<noteq> '''' then '' ('' @ Main_Sum info @ '')'' else ''''))"

text \<open>
  \<open>strings.Join\<close>: nothing for no element, else the first element and then each
  further one after the separator.
\<close>

fun strings_Join :: "string list \<Rightarrow> string \<Rightarrow> string" where
  "strings_Join [] sep = ''''"
| "strings_Join (x # xs) sep = foldl (\<lambda>b s. b @ sep @ s) x xs"

text \<open>
  The loop of \<open>getArgs\<close> (lines 252 to 258): quote each argument in turn, append the
  quoted form, and return at the first error.
\<close>

fun quote_loop :: "(string \<Rightarrow> error + string) \<Rightarrow> string list \<Rightarrow> string list \<Rightarrow> error + string list" where
  "quote_loop q [] quotedCliArgs = Inr quotedCliArgs"
| "quote_loop q (arg # rest) quotedCliArgs =
     (case q arg of
        Inl err \<Rightarrow> Inl err
      | Inr quotedCliArg \<Rightarrow> quote_loop q rest (quotedCliArgs @ [quotedCliArg]))"

datatype 'a result = Ok 'a | Err error | Panic

text \<open>
  \<open>getArgs\<close>, with the two values it reads from package \<open>pflag\<close> as arguments and
  the quoting function as \<open>q\<close>. The slice expressions \<open>args[doubleDashPos:]\<close> and
  \<open>args[:doubleDashPos]\<close> panic outside \<open>0 .. len(args)\<close>.
\<close>

definition getArgs :: "(string \<Rightarrow> error + string) \<Rightarrow> string list \<Rightarrow> int \<Rightarrow> (string list \<times> string) result" where
  "getArgs q args doubleDashPos =
     (if doubleDashPos = - 1 then Ok (args, '''')
      else if doubleDashPos < 0 \<or> int (length args) < doubleDashPos then Panic
      else case quote_loop q (drop (nat doubleDashPos) args) [] of
             Inl err \<Rightarrow> Err err
           | Inr quotedCliArgs \<Rightarrow>
               Ok (take (nat doubleDashPos) args, strings_Join quotedCliArgs '' ''))"

text \<open>The two call grammars, and the one line 206 selects for a version.\<close>

datatype grammar = V3 | V2

definition selected_grammar :: "float64 \<Rightarrow> grammar" where
  "selected_grammar v = (if f64_ge v (Finite 3) then V3 else V2)"

fun parse_with :: "env \<Rightarrow> grammar \<Rightarrow> string list \<Rightarrow> Call list \<times> Vars" where
  "parse_with env V3 tasksAndVars = ParseV3 env tasksAndVars"
| "parse_with env V2 tasksAndVars = ParseV2 env tasksAndVars"

text \<open>
  Lines 201 to 212 of \<open>Task\<close>: split the arguments, parse the task tokens under the
  selected grammar, bind \<open>CLI_ARGS\<close>. \<open>getArgs\<close> reads \<open>pflag.Args()\<close> and
  \<open>pflag.CommandLine.ArgsLenAtDash()\<close>, the package-level flag set.
\<close>

definition build_calls :: "env \<Rightarrow> float64 \<Rightarrow> (Call list \<times> Vars) result" where
  "build_calls env v =
     (case getArgs (Quote env) (Args (CommandLine env)) (ArgsLenAtDash (CommandLine env)) of
        Panic \<Rightarrow> Panic
      | Err err \<Rightarrow> Err err
      | Ok (tasksAndVars, cliArgs) \<Rightarrow>
          (case parse_with env (selected_grammar v) tasksAndVars of
             (calls, globals) \<Rightarrow>
               Ok (calls, Vars_Set globals ''CLI_ARGS'' \<lparr>Static = cliArgs, Sh = ''''\<rparr>)))"

text \<open>
  Lines 228 to 238: the run action. \<open>fmt.Errorf\<close> builds an error value, which is
  dropped; it writes nothing.
\<close>

definition run_action :: "env \<Rightarrow> flags \<Rightarrow> Executor \<Rightarrow> Taskfile \<Rightarrow> Call list \<Rightarrow> behaviour" where
  "run_action env fl e tf calls =
     (case Run env e tf calls of
        None \<Rightarrow> ([Call_Run tf calls], Return)
      | Some err \<Rightarrow>
          ([Call_Run tf calls],
           if exitCode fl then (case err of TaskRunError c m \<Rightarrow> Exit c | OtherError m \<Rightarrow> Exit 1)
           else Exit 1))"

text \<open>Lines 196 to 238: build the calls, merge the globals, then status or run.\<close>

definition execute :: "env \<Rightarrow> flags \<Rightarrow> Executor \<Rightarrow> Taskfile \<Rightarrow> float64 \<Rightarrow> behaviour" where
  "execute env fl e tf v =
     (case build_calls env v of
        Panic \<Rightarrow> ([], Panicked)
      | Err err \<Rightarrow> log_Fatal (Error err)
      | Ok (calls, globals) \<Rightarrow>
          (let tf' = tf\<lparr>Vars := Merge env (Vars tf) globals\<rparr> in
           and_then (if \<not> watch fl then [Call_InterceptInterruptSignals] else [])
             (if status fl then
                (case Status env e tf' calls of
                   Some err \<Rightarrow> and_then [Call_Status tf' calls] (log_Fatal (Error err))
                 | None \<Rightarrow> ([Call_Status tf' calls], Return))
              else run_action env fl e tf' calls)))"

text \<open>Lines 166 to 194: the silent listing, the set-up, and the two listings.\<close>

definition dispatch :: "env \<Rightarrow> flags \<Rightarrow> Executor \<Rightarrow> behaviour" where
  "dispatch env fl e =
     (if (list fl \<or> listAll fl) \<and> silent fl then ([Call_ListTaskNames (listAll fl)], Return)
      else case Setup env e of
        Inl err \<Rightarrow> and_then [Call_Setup] (log_Fatal (Error err))
      | Inr tf \<Rightarrow>
          and_then [Call_Setup]
            (case ParsedVersion tf of
               Inl err \<Rightarrow> log_Fatal (Error err)
             | Inr v \<Rightarrow>
                 if list fl then
                   (if ListTasks env e tf [FilterOutInternal, FilterOutNoDesc]
                    then ([Call_ListTasks [FilterOutInternal, FilterOutNoDesc]], Return)
                    else ([Call_ListTasks [FilterOutInternal, FilterOutNoDesc],
                           Stdout ''task: No tasks with description available. Try --list-all to list all tasks''],
                          Return))
                 else if listAll fl then
                   (if ListTasks env e tf [FilterOutInternal]
                    then ([Call_ListTasks [FilterOutInternal]], Return)
                    else ([Call_ListTasks [FilterOutInternal], Stdout ''task: No tasks available''],
                          Return))
                 else execute env fl e tf v))"

text \<open>
  \<open>Task\<close>, from the parsed flags on (lines 104 to 164). \<open>pflags\<close> is the local flag
  set after \<open>pflags.Parse(arguments)\<close>; the function never reads its positional
  arguments.
\<close>

definition Task :: "env \<Rightarrow> flags \<Rightarrow> FlagSet \<Rightarrow> behaviour" where
  "Task env fl pflags =
     (if versionFlag fl then ([Stdout (''Task version: '' @ getVersion env @ [CHR 0x0A])], Return)
      else if helpFlag fl then ([Stderr usage, PrintDefaults], Return)
      else if init fl then
        (case Getwd env of
           Inl err \<Rightarrow> and_then [Call_Getwd] (log_Fatal (Error err))
         | Inr wd \<Rightarrow>
             (case InitTaskfile env wd of
                Some err \<Rightarrow> and_then [Call_Getwd, Call_InitTaskfile wd] (log_Fatal (Error err))
              | None \<Rightarrow> ([Call_Getwd, Call_InitTaskfile wd], Return)))
      else if dir fl \<noteq> '''' \<and> entrypoint fl \<noteq> '''' then
        log_Fatal ''task: You can't set both --dir and --taskfile''
      else
        (let dir' = (if entrypoint fl \<noteq> '''' then filepath_Dir env (entrypoint fl) else dir fl);
             entrypoint' = (if entrypoint fl \<noteq> '''' then filepath_Base env (entrypoint fl)
                            else entrypoint fl)
         in
         if Name (output_flag fl) \<noteq> ''group'' \<and> Begin (Group (output_flag fl)) \<noteq> '''' then
           log_Fatal ''task: You can't set --output-group-begin without --output=group''
         else if Name (output_flag fl) \<noteq> ''group'' \<and> End (Group (output_flag fl)) \<noteq> '''' then
           log_Fatal ''task: You can't set --output-group-end without --output=group''
         else
           dispatch env fl
             \<lparr>Force = force fl, Watch = watch fl, Verbose = verbose fl, Silent = silent fl,
              Dir = dir', Dry = dry fl, Entrypoint = entrypoint', Summary = summary fl,
              Parallel = parallel fl, Color = color fl, Concurrency = concurrency fl,
              Interval = interval fl, OutputStyle = output_flag fl\<rparr>))"

section \<open>Package templater: the function registry\<close>

text \<open>The build target: the constants \<open>runtime.GOOS\<close> and \<open>runtime.GOARCH\<close>.\<close>

record target =
  GOOS :: string
  GOARCH :: string

text \<open>
  A value of a \<open>template.FuncMap\<close>: a Go function of one of the signatures
  \<open>funcs.go\<close> registers, \<open>nil\<close>, or a value of the base library (\<open>Foreign\<close>,
  opaque here).
\<close>

datatype 'x func =
    Nil
  | Func0_string "unit \<Rightarrow> string"
  | Func0_bool "unit \<Rightarrow> bool"
  | Func1_string "string \<Rightarrow> string"
  | Func1_strings "string \<Rightarrow> string list"
  | Func1_string_error "string \<Rightarrow> error + string"
  | Func1_strings_error "string \<Rightarrow> error + string list"
  | Func2_string_error "string \<Rightarrow> string \<Rightarrow> error + string"
  | FuncV_string "string list \<Rightarrow> string"
  | Foreign 'x

type_synonym 'x FuncMap = "string \<Rightarrow> 'x func option"

text \<open>
  What \<open>funcs.go\<close> calls outside its own file: the standard library, the shell
  library \<open>github.com/nuvolaris/sh/v3\<close>, and the base library's
  \<open>sprig.TxtFuncMap()\<close>.
\<close>

record 'x lib =
  strings_ReplaceAll :: "string \<Rightarrow> string \<Rightarrow> string \<Rightarrow> string"
  strings_Split :: "string \<Rightarrow> string \<Rightarrow> string list"
  filepath_FromSlash :: "string \<Rightarrow> string"
  filepath_ToSlash :: "string \<Rightarrow> string"
  filepath_Join :: "string list \<Rightarrow> string"
  filepath_Rel :: "string \<Rightarrow> string \<Rightarrow> error + string"
  syntax_Quote :: "string \<Rightarrow> error + string"
  shell_Fields :: "string \<Rightarrow> error + string list"
  sprig_TxtFuncMap :: "'x FuncMap"

text \<open>The composite literal of lines 17 to 54.\<close>

definition taskFuncs_literal :: "target \<Rightarrow> 'x lib \<Rightarrow> 'x FuncMap" where
  "taskFuncs_literal t l = map_of
     [(''OS'', Func0_string (\<lambda>u. GOOS t)),
      (''ARCH'', Func0_string (\<lambda>u. GOARCH t)),
      (''catLines'', Func1_string (\<lambda>s.
         strings_ReplaceAll l (strings_ReplaceAll l s [CHR 0x0D, CHR 0x0A] '' '') [CHR 0x0A] '' '')),
      (''splitLines'', Func1_strings (\<lambda>s.
         strings_Split l (strings_ReplaceAll l s [CHR 0x0D, CHR 0x0A] [CHR 0x0A]) [CHR 0x0A])),
      (''fromSlash'', Func1_string (\<lambda>path. filepath_FromSlash l path)),
      (''toSlash'', Func1_string (\<lambda>path. filepath_ToSlash l path)),
      (''exeExt'', Func0_string (\<lambda>u. if GOOS t = ''windows'' then ''.exe'' else [])),
      (''shellQuote'', Func1_string_error (\<lambda>str. syntax_Quote l str)),
      (''splitArgs'', Func1_strings_error (\<lambda>s. shell_Fields l s)),
      (''IsSH'', Func0_bool (\<lambda>u. True)),
      (''joinPath'', FuncV_string (\<lambda>elem. filepath_Join l elem)),
      (''relPath'', Func2_string_error (\<lambda>basePath targetPath. filepath_Rel l basePath targetPath))]"

text \<open>A Go map index expression: the value under the key, \<open>nil\<close> when there is none.\<close>

definition Index :: "'x FuncMap \<Rightarrow> string \<Rightarrow> 'x func" where
  "Index m k = (case m k of Some v \<Rightarrow> v | None \<Rightarrow> Nil)"

text \<open>\<open>taskFuncs\<close> after the three alias assignments of lines 56 to 58.\<close>

definition taskFuncs :: "target \<Rightarrow> 'x lib \<Rightarrow> 'x FuncMap" where
  "taskFuncs t l =
     (let m0 = taskFuncs_literal t l;
          m1 = m0(''FromSlash'' \<mapsto> Index m0 ''fromSlash'');
          m2 = m1(''ToSlash'' \<mapsto> Index m1 ''toSlash'');
          m3 = m2(''ExeExt'' \<mapsto> Index m2 ''exeExt'')
      in m3)"

text \<open>
  The loop of lines 61 to 63, \<open>for k, v := range taskFuncs\<close>, over the keys in the
  order the Go runtime visits them (any enumeration of the keys of the map).
\<close>

fun range_assign :: "'x FuncMap \<Rightarrow> string list \<Rightarrow> 'x FuncMap \<Rightarrow> 'x FuncMap" where
  "range_assign src [] dst = dst"
| "range_assign src (k # ks) dst =
     (case src k of
        Some v \<Rightarrow> range_assign src ks (dst(k \<mapsto> v))
      | None \<Rightarrow> range_assign src ks dst)"

text \<open>
  The package variable \<open>templateFuncs\<close> as \<open>init()\<close> leaves it. Go runs a
  package's \<open>init\<close> once, before \<open>main\<close>, and nothing else in the file assigns the
  variable or one of its keys: the registry is this one value.
\<close>

definition templateFuncs :: "target \<Rightarrow> 'x lib \<Rightarrow> string list \<Rightarrow> 'x FuncMap" where
  "templateFuncs t l order = range_assign (taskFuncs t l) order (sprig_TxtFuncMap l)"

section \<open>The properties as the specification words them\<close>

text \<open>Strings joined with single spaces.\<close>

fun join_spaces :: "string list \<Rightarrow> string" where
  "join_spaces [] = []"
| "join_spaces [x] = x"
| "join_spaces (x # y # ys) = x @ '' '' @ join_spaces (y # ys)"

section \<open>Sample inputs\<close>

text \<open>
  Stand-ins for the external collaborators, used only to evaluate the model at concrete
  inputs. \<open>sample_Quote\<close> wraps a string in single quotes and refuses a NUL byte;
  \<open>sample_ParseV3\<close> takes a token with \<open>=\<close> as a global assignment and every other
  token as a task name; \<open>sample_ParseV2\<close> reads the first token as the only task name.
\<close>

definition sample_Quote :: "string \<Rightarrow> error + string" where
  "sample_Quote s =
     (if CHR 0x00 \<in> set s then Inl (OtherError ''shell strings cannot contain null bytes'')
      else Inr ([CHR 0x27] @ s @ [CHR 0x27]))"

fun sample_globals :: "string list \<Rightarrow> Vars \<Rightarrow> Vars" where
  "sample_globals [] globals = globals"
| "sample_globals (arg # rest) globals =
     (if CHR ''='' \<in> set arg
      then sample_globals rest
             (Vars_Set globals (takeWhile (\<lambda>c. c \<noteq> CHR ''='') arg)
                \<lparr>Static = drop 1 (dropWhile (\<lambda>c. c \<noteq> CHR ''='') arg), Sh = []\<rparr>)
      else sample_globals rest globals)"

definition sample_ParseV3 :: "string list \<Rightarrow> Call list \<times> Vars" where
  "sample_ParseV3 tasksAndVars =
     (let names = filter (\<lambda>arg. CHR ''='' \<notin> set arg) tasksAndVars in
      (map (\<lambda>n. \<lparr>CallTask = n, CallVars = []\<rparr>) (if names = [] then [''default''] else names),
       sample_globals tasksAndVars []))"

definition sample_ParseV2 :: "string list \<Rightarrow> Call list \<times> Vars" where
  "sample_ParseV2 tasksAndVars =
     (case tasksAndVars of
        [] \<Rightarrow> ([\<lparr>CallTask = ''default'', CallVars = []\<rparr>], [])
      | n # rest \<Rightarrow> ([\<lparr>CallTask = n, CallVars = []\<rparr>], sample_globals rest []))"

definition sample_Merge :: "Vars \<Rightarrow> Vars \<Rightarrow> Vars" where
  "sample_Merge vs other = fold (\<lambda>kv acc. Vars_Set acc (fst kv) (snd kv)) other vs"

definition sample_env :: env where
  "sample_env =
     \<lparr>version = ''v3.20.0'', ReadBuildInfo = None, Getwd = Inr ''/work'',
      InitTaskfile = (\<lambda>wd. None), filepath_Dir = (\<lambda>p. ''.''), filepath_Base = (\<lambda>p. p),
      Setup = (\<lambda>e. Inr \<lparr>ParsedVersion = Inr (Finite 3), Vars = []\<rparr>),
      ListTasks = (\<lambda>e tf fs. True),
      CommandLine = \<lparr>Args = [], ArgsLenAtDash = - 1\<rparr>,
      Quote = sample_Quote, ParseV3 = sample_ParseV3, ParseV2 = sample_ParseV2,
      Merge = sample_Merge, Status = (\<lambda>e tf calls. None), Run = (\<lambda>e tf calls. None)\<rparr>"

definition sample_target :: target where
  "sample_target = \<lparr>GOOS = ''linux'', GOARCH = ''amd64''\<rparr>"

definition sample_lib :: "nat lib" where
  "sample_lib =
     \<lparr>strings_ReplaceAll = (\<lambda>s old new. s), strings_Split = (\<lambda>s sep. [s]),
      filepath_FromSlash = (\<lambda>p. p), filepath_ToSlash = (\<lambda>p. p),
      filepath_Join = (\<lambda>elem. join_spaces elem), filepath_Rel = (\<lambda>b p. Inr p),
      syntax_Quote = sample_Quote, shell_Fields = (\<lambda>s. Inr [s]),
      sprig_TxtFuncMap = [''upper'' \<mapsto> Foreign 0, ''toSlash'' \<mapsto> Foreign 1]\<rparr>"

definition sample_order :: "string list" where
  "sample_order =
     [''relPath'', ''OS'', ''ExeExt'', ''catLines'', ''toSlash'', ''FromSlash'', ''IsSH'',
      ''splitArgs'', ''ARCH'', ''exeExt'', ''joinPath'', ''ToSlash'', ''splitLines'',
      ''fromSlash'', ''shellQuote'']"

section \<open>The argument splitter\<close>

lemma quote_loop_all:
  "\<forall>a\<in>set xs. q a = Inr (qf a) \<Longrightarrow> quote_loop q xs acc = Inr (acc @ map qf xs)"
  by (induction xs arbitrary: acc) simp_all

lemma quote_loop_error:
  "quote_loop q xs acc = Inl err \<Longrightarrow> \<exists>a\<in>set xs. q a = Inl err"
  by (induction xs arbitrary: acc) (auto split: sum.splits)

lemma foldl_sep: "foldl (\<lambda>b s. b @ sep @ s) x xs = x @ concat (map (\<lambda>s. sep @ s) xs)"
  by (induction xs arbitrary: x) simp_all

lemma join_spaces_Cons: "join_spaces (x # xs) = x @ concat (map (\<lambda>s. '' '' @ s) xs)"
  by (induction xs arbitrary: x) simp_all

lemma strings_Join_spaces: "strings_Join xs '' '' = join_spaces xs"
proof (cases xs)
  case Nil
  then show ?thesis by simp
next
  case (Cons x ys)
  have "strings_Join (x # ys) '' '' = x @ concat (map (\<lambda>s. '' '' @ s) ys)"
    using foldl_sep [of "'' ''" x ys] by simp
  with Cons show ?thesis by (simp only: join_spaces_Cons)
qed

text \<open>
  Claim C4. With no separator (the sentinel \<open>-1\<close>) \<open>getArgs\<close> returns the whole
  list as the task tokens and the empty pass-through string. With a separator at index
  \<open>i\<close> of the list it returns the arguments before index \<open>i\<close> unchanged, and the
  pass-through string is the quoted forms of the arguments from index \<open>i\<close> on, each
  quoted on its own (\<open>qf a\<close> is the quoted form of \<open>a\<close>), joined with single spaces.
\<close>

theorem getArgs_splits:
  "getArgs q args (- 1) = Ok (args, []) \<and>
   (0 \<le> i \<and> i \<le> int (length args) \<and> (\<forall>a\<in>set (drop (nat i) args). q a = Inr (qf a)) \<longrightarrow>
      getArgs q args i =
        Ok (take (nat i) args, join_spaces (map qf (drop (nat i) args))))"
proof
  show "getArgs q args (- 1) = Ok (args, [])"
    by (simp add: getArgs_def)
next
  show "0 \<le> i \<and> i \<le> int (length args) \<and> (\<forall>a\<in>set (drop (nat i) args). q a = Inr (qf a)) \<longrightarrow>
      getArgs q args i = Ok (take (nat i) args, join_spaces (map qf (drop (nat i) args)))"
  proof
    assume h: "0 \<le> i \<and> i \<le> int (length args) \<and> (\<forall>a\<in>set (drop (nat i) args). q a = Inr (qf a))"
    then have "quote_loop q (drop (nat i) args) [] = Inr (map qf (drop (nat i) args))"
      using quote_loop_all [of "drop (nat i) args" q qf "[]"] by simp
    with h show "getArgs q args i = Ok (take (nat i) args, join_spaces (map qf (drop (nat i) args)))"
      by (simp add: getArgs_def strings_Join_spaces)
  qed
qed

text \<open>
  The command line \<open>task build -- 'a b' c\<close>, as \<open>pflag\<close> hands it over: the
  positional arguments without the separator, and its index 1.
\<close>

theorem getArgs_splits_witness:
  "getArgs sample_Quote [''build'', ''a b'', ''c''] (- 1) = Ok ([''build'', ''a b'', ''c''], []) \<and>
   getArgs sample_Quote [''build'', ''a b'', ''c''] 1 =
     Ok ([''build''], [CHR 0x27] @ ''a b'' @ [CHR 0x27] @ '' '' @ [CHR 0x27] @ ''c'' @ [CHR 0x27])"
  using getArgs_splits [of sample_Quote "[''build'', ''a b'', ''c'']" 1 "\<lambda>s. [CHR 0x27] @ s @ [CHR 0x27]"]
  by (simp add: sample_Quote_def)

text \<open>
  When \<open>getArgs\<close> returns an error, it is the error of quoting one of the arguments
  from the separator on.
\<close>

lemma getArgs_quote_error:
  "getArgs q args i = Err err \<Longrightarrow> \<exists>a\<in>set (drop (nat i) args). q a = Inl err"
  by (auto simp: getArgs_def split: if_splits sum.splits dest: quote_loop_error)

section \<open>The call builder\<close>

text \<open>
  Claim C6, as amended. The v3 grammar is selected exactly when \<open>v >= 3.0\<close>; the v2
  grammar is selected in every other case, that is when \<open>v < 3.0\<close> and also when
  \<open>v\<close> is NaN, which is neither.
\<close>

theorem grammar_selection:
  "(selected_grammar v = V3 \<longleftrightarrow> f64_ge v (Finite 3)) \<and>
   (selected_grammar v = V2 \<longleftrightarrow> f64_lt v (Finite 3) \<or> v = NaN)"
  by (cases v) (auto simp: selected_grammar_def)

theorem grammar_selection_witness:
  "selected_grammar (Finite 3) = V3 \<and> selected_grammar (Finite (29 / 10)) = V2 \<and>
   selected_grammar NaN = V2"
  using grammar_selection [of "Finite 3"] grammar_selection [of "Finite (29 / 10)"]
    grammar_selection [of NaN]
  by simp

text \<open>
  Claim C6 as stated fails at NaN: the v2 grammar is selected although \<open>v < 3.0\<close> is
  false.
\<close>

theorem NaN_selects_V2:
  "selected_grammar NaN = V2 \<and> \<not> f64_lt NaN (Finite 3)"
  by (simp add: selected_grammar_def)

lemma map_of_Vars_Set: "map_of (Vars_Set vs key v) = (map_of vs)(key \<mapsto> v)"
  by (induction vs key v rule: Vars_Set.induct) auto

text \<open>
  What call building returns: the calls of the selected parser on the task tokens of
  \<open>getArgs\<close>, and that parser's globals with \<open>CLI_ARGS\<close> bound to the pass-through
  string of \<open>getArgs\<close>, whatever the parser had bound the name to.
\<close>

lemma build_calls_CLI_ARGS:
  "build_calls env v = Ok (calls, globals) \<Longrightarrow>
   \<exists>tasksAndVars cliArgs.
     getArgs (Quote env) (Args (CommandLine env)) (ArgsLenAtDash (CommandLine env)) =
       Ok (tasksAndVars, cliArgs) \<and>
     calls = fst (parse_with env (selected_grammar v) tasksAndVars) \<and>
     map_of globals = (map_of (snd (parse_with env (selected_grammar v) tasksAndVars)))
        (''CLI_ARGS'' \<mapsto> \<lparr>Static = cliArgs, Sh = []\<rparr>)"
  by (auto simp: build_calls_def map_of_Vars_Set split: result.splits prod.splits)

lemma Task_ignores_local_positional_arguments: "Task env fl pflags = Task env fl pflags'"
  by (simp add: Task_def)

text \<open>
  Claim C3 at \<open>Task([]string{"build", "--", "hello"})\<close> in a process whose
  \<open>pflag.CommandLine\<close> holds no arguments. The local flag set has the positional
  arguments \<open>build\<close>, \<open>hello\<close> and the separator at index 1, and no flag variable is
  changed. \<open>getArgs\<close> reads \<open>pflag.CommandLine\<close>: the executor runs with
  \<open>CLI_ARGS\<close> bound to the empty string, not to the quoted \<open>hello\<close>, and with no task
  token.
\<close>

theorem passthrough_of_local_flag_set_lost:
  "Task sample_env default_flags \<lparr>Args = [''build'', ''hello''], ArgsLenAtDash = 1\<rparr> =
   ([Call_Setup, Call_InterceptInterruptSignals,
     Call_Run \<lparr>ParsedVersion = Inr (Finite 3), Vars = [(''CLI_ARGS'', \<lparr>Static = [], Sh = []\<rparr>)]\<rparr>
       [\<lparr>CallTask = ''default'', CallVars = []\<rparr>]],
    Return)"
  by (simp add: Task_def default_flags_def sample_env_def dispatch_def execute_def build_calls_def
      getArgs_def selected_grammar_def sample_ParseV3_def sample_Merge_def and_then_def run_action_def)

text \<open>
  For contrast: when the package-level flag set holds \<open>build CLI_ARGS=mine -- hello\<close>,
  the executor runs \<open>build\<close> with \<open>CLI_ARGS\<close> bound to the quoted \<open>hello\<close>,
  over the assignment of the command line.
\<close>

lemma passthrough_of_CommandLine_bound:
  "Task (sample_env\<lparr>CommandLine := \<lparr>Args = [''build'', ''CLI_ARGS=mine'', ''hello''], ArgsLenAtDash = 2\<rparr>\<rparr>)
     default_flags \<lparr>Args = [], ArgsLenAtDash = - 1\<rparr> =
   ([Call_Setup, Call_InterceptInterruptSignals,
     Call_Run \<lparr>ParsedVersion = Inr (Finite 3),
               Vars = [(''CLI_ARGS'', \<lparr>Static = [CHR 0x27] @ ''hello'' @ [CHR 0x27], Sh = []\<rparr>)]\<rparr>
       [\<lparr>CallTask = ''build'', CallVars = []\<rparr>]],
    Return)"
  by (simp add: Task_def default_flags_def sample_env_def dispatch_def execute_def build_calls_def
      getArgs_def selected_grammar_def sample_ParseV3_def sample_Merge_def and_then_def run_action_def
      sample_Quote_def)

section \<open>Flag combinations\<close>

text \<open>
  Claim C2, as amended. When \<open>--dir\<close> and \<open>--taskfile\<close> are both non-empty and none
  of \<open>--version\<close>, \<open>--help\<close> and \<open>--init\<close> is set, the process writes the one line
  of the invalid combination and exits with 1: nothing is read, scaffolded or loaded.
\<close>

theorem dir_and_taskfile_rejected:
  "dir fl \<noteq> [] \<Longrightarrow> entrypoint fl \<noteq> [] \<Longrightarrow>
   \<not> versionFlag fl \<Longrightarrow> \<not> helpFlag fl \<Longrightarrow> \<not> init fl \<Longrightarrow>
   Task env fl pflags = ([Stderr ''task: You can't set both --dir and --taskfile''], Exit 1)"
  by (simp add: Task_def log_Fatal_def)

theorem dir_and_taskfile_rejected_witness:
  "Task sample_env (default_flags\<lparr>dir := ''sub'', entrypoint := ''other/Taskfile.yml''\<rparr>)
     \<lparr>Args = [''build''], ArgsLenAtDash = - 1\<rparr> =
   ([Stderr ''task: You can't set both --dir and --taskfile''], Exit 1)"
  using dir_and_taskfile_rejected
    [of "default_flags\<lparr>dir := ''sub'', entrypoint := ''other/Taskfile.yml''\<rparr>" sample_env
        "\<lparr>Args = [''build''], ArgsLenAtDash = - 1\<rparr>"]
  by (simp add: default_flags_def)

text \<open>
  Claim C2 as stated fails with \<open>--init\<close>: both flags are set, and the Taskfile is
  scaffolded in the working directory; the process returns with no error.
\<close>

theorem init_precedes_dir_taskfile_check:
  "dir (default_flags\<lparr>init := True, dir := ''sub'', entrypoint := ''other/Taskfile.yml''\<rparr>) \<noteq> [] \<and>
   entrypoint (default_flags\<lparr>init := True, dir := ''sub'', entrypoint := ''other/Taskfile.yml''\<rparr>) \<noteq> [] \<and>
   Task sample_env (default_flags\<lparr>init := True, dir := ''sub'', entrypoint := ''other/Taskfile.yml''\<rparr>)
     \<lparr>Args = [], ArgsLenAtDash = - 1\<rparr> =
   ([Call_Getwd, Call_InitTaskfile ''/work''], Return)"
  by (simp add: Task_def default_flags_def sample_env_def)

text \<open>
  Claim C7, as amended. When the output style is not \<open>group\<close>, one of the two group
  templates is non-empty, and none of \<open>--version\<close>, \<open>--help\<close> and \<open>--init\<close> is set,
  the process writes one line of an invalid flag combination and exits with 1: the line
  of \<open>--dir\<close> with \<open>--taskfile\<close> when both of these are set, else the line of the begin
  template when it is set, else the line of the end template.
\<close>

theorem group_templates_rejected:
  "Name (output_flag fl) \<noteq> ''group'' \<Longrightarrow>
   Begin (Group (output_flag fl)) \<noteq> [] \<or> End (Group (output_flag fl)) \<noteq> [] \<Longrightarrow>
   \<not> versionFlag fl \<Longrightarrow> \<not> helpFlag fl \<Longrightarrow> \<not> init fl \<Longrightarrow>
   Task env fl pflags =
     ([Stderr
        (if dir fl \<noteq> [] \<and> entrypoint fl \<noteq> []
         then ''task: You can't set both --dir and --taskfile''
         else if Begin (Group (output_flag fl)) \<noteq> []
         then ''task: You can't set --output-group-begin without --output=group''
         else ''task: You can't set --output-group-end without --output=group'')],
      Exit 1)"
  by (auto simp add: Task_def log_Fatal_def Let_def)

theorem group_templates_rejected_witness:
  "Task sample_env
     (default_flags\<lparr>output_flag := \<lparr>Name = ''prefixed'', Group = \<lparr>Begin = [], End = ''done''\<rparr>\<rparr>\<rparr>)
     \<lparr>Args = [''build''], ArgsLenAtDash = - 1\<rparr> =
   ([Stderr ''task: You can't set --output-group-end without --output=group''], Exit 1)"
  using group_templates_rejected
    [of "default_flags\<lparr>output_flag := \<lparr>Name = ''prefixed'', Group = \<lparr>Begin = [], End = ''done''\<rparr>\<rparr>\<rparr>"
        sample_env "\<lparr>Args = [''build''], ArgsLenAtDash = - 1\<rparr>"]
  by (simp add: default_flags_def)

text \<open>
  Claim C7 as stated fails with \<open>--init\<close>: the begin template is set with the default
  style, and the process scaffolds the Taskfile and returns with no error.
\<close>

theorem init_precedes_group_check:
  "Name (output_flag (default_flags\<lparr>init := True,
      output_flag := \<lparr>Name = [], Group = \<lparr>Begin = ''start'', End = []\<rparr>\<rparr>\<rparr>)) \<noteq> ''group'' \<and>
   Begin (Group (output_flag (default_flags\<lparr>init := True,
      output_flag := \<lparr>Name = [], Group = \<lparr>Begin = ''start'', End = []\<rparr>\<rparr>\<rparr>))) \<noteq> [] \<and>
   Task sample_env
     (default_flags\<lparr>init := True, output_flag := \<lparr>Name = [], Group = \<lparr>Begin = ''start'', End = []\<rparr>\<rparr>\<rparr>)
     \<lparr>Args = [], ArgsLenAtDash = - 1\<rparr> =
   ([Call_Getwd, Call_InitTaskfile ''/work''], Return)"
  by (simp add: Task_def default_flags_def sample_env_def)

section \<open>The run action\<close>

text \<open>The run action writes nothing, whether the run fails or not.\<close>

lemma run_action_writes_nothing:
  "fst (run_action env fl e tf calls) = [Call_Run tf calls]"
  by (simp add: run_action_def split: option.splits)

text \<open>
  Its exit code: none on success; on failure the code of a \<open>TaskRunError\<close> when
  \<open>exit-code\<close> was requested, and 1 otherwise.
\<close>

lemma run_action_outcome:
  "snd (run_action env fl e tf calls) =
     (case Run env e tf calls of
        None \<Rightarrow> Return
      | Some (TaskRunError c m) \<Rightarrow> if exitCode fl then Exit c else Exit 1
      | Some (OtherError m) \<Rightarrow> Exit 1)"
  by (simp add: run_action_def split: option.splits error.splits)

text \<open>
  Claim C1 at \<open>task -x\<close> with a default task that fails with exit status 3: the
  process exits with 3, and no line is written for the failure.
\<close>

theorem failed_run_writes_no_line:
  "Task (sample_env\<lparr>Run := (\<lambda>e tf calls.
       Some (TaskRunError 3 ''task: Failed to run task \"default\": exit status 3''))\<rparr>)
     (default_flags\<lparr>exitCode := True\<rparr>) \<lparr>Args = [], ArgsLenAtDash = - 1\<rparr> =
   ([Call_Setup, Call_InterceptInterruptSignals,
     Call_Run \<lparr>ParsedVersion = Inr (Finite 3), Vars = [(''CLI_ARGS'', \<lparr>Static = [], Sh = []\<rparr>)]\<rparr>
       [\<lparr>CallTask = ''default'', CallVars = []\<rparr>]],
    Exit 3)"
  by (simp add: Task_def default_flags_def sample_env_def dispatch_def execute_def build_calls_def
      getArgs_def selected_grammar_def sample_ParseV3_def sample_Merge_def and_then_def run_action_def)

section \<open>The template function registry\<close>

lemma range_assign_lookup:
  "range_assign src ks dst k = (if k \<in> set ks \<and> src k \<noteq> None then src k else dst k)"
  by (induction ks arbitrary: dst) (auto split: option.splits)

lemma templateFuncs_lookup:
  assumes "set order = dom (taskFuncs t l)"
  shows "templateFuncs t l order k =
           (case taskFuncs t l k of Some f \<Rightarrow> Some f | None \<Rightarrow> sprig_TxtFuncMap l k)"
  using assms by (auto simp: templateFuncs_def range_assign_lookup split: option.splits)

lemma dom_taskFuncs:
  "dom (taskFuncs t l) =
     {''OS'', ''ARCH'', ''catLines'', ''splitLines'', ''fromSlash'', ''toSlash'', ''exeExt'',
      ''shellQuote'', ''splitArgs'', ''IsSH'', ''joinPath'', ''relPath'', ''FromSlash'',
      ''ToSlash'', ''ExeExt''}"
  by (auto simp: taskFuncs_def taskFuncs_literal_def Let_def split: if_splits)

lemma sample_order_covers: "set sample_order = dom (taskFuncs t l)"
  unfolding dom_taskFuncs by (auto simp: sample_order_def)

lemma taskFuncs_OS: "taskFuncs t l ''OS'' = Some (Func0_string (\<lambda>u. GOOS t))"
  by (simp add: taskFuncs_def taskFuncs_literal_def Let_def)

lemma taskFuncs_ARCH: "taskFuncs t l ''ARCH'' = Some (Func0_string (\<lambda>u. GOARCH t))"
  by (simp add: taskFuncs_def taskFuncs_literal_def Let_def)

lemma taskFuncs_exeExt:
  "taskFuncs t l ''exeExt'' = Some (Func0_string (\<lambda>u. if GOOS t = ''windows'' then ''.exe'' else []))"
  by (simp add: taskFuncs_def taskFuncs_literal_def Let_def)

lemma taskFuncs_ExeExt:
  "taskFuncs t l ''ExeExt'' = Some (Func0_string (\<lambda>u. if GOOS t = ''windows'' then ''.exe'' else []))"
  by (simp add: taskFuncs_def taskFuncs_literal_def Let_def Index_def)

lemma taskFuncs_fromSlash: "taskFuncs t l ''fromSlash'' = Some (Func1_string (filepath_FromSlash l))"
  by (simp add: taskFuncs_def taskFuncs_literal_def Let_def)

lemma taskFuncs_FromSlash: "taskFuncs t l ''FromSlash'' = Some (Func1_string (filepath_FromSlash l))"
  by (simp add: taskFuncs_def taskFuncs_literal_def Let_def Index_def)

lemma taskFuncs_toSlash: "taskFuncs t l ''toSlash'' = Some (Func1_string (filepath_ToSlash l))"
  by (simp add: taskFuncs_def taskFuncs_literal_def Let_def)

lemma taskFuncs_ToSlash: "taskFuncs t l ''ToSlash'' = Some (Func1_string (filepath_ToSlash l))"
  by (simp add: taskFuncs_def taskFuncs_literal_def Let_def Index_def)

text \<open>
  Claim C8. The registry is the base library's map with every entry of \<open>taskFuncs\<close>
  assigned over it, in whatever order the loop visits the keys: a name \<open>taskFuncs\<close>
  defines maps to the function of \<open>taskFuncs\<close>, also when the base library defines
  the name, and every other name maps to what the base library gives.
\<close>

theorem registry_shadows_base:
  assumes "set order = dom (taskFuncs t l)"
  shows "(\<forall>k f. taskFuncs t l k = Some f \<longrightarrow> templateFuncs t l order k = Some f) \<and>
         (\<forall>k. taskFuncs t l k = None \<longrightarrow> templateFuncs t l order k = sprig_TxtFuncMap l k)"
  using assms by (simp add: templateFuncs_lookup)

theorem registry_shadows_base_witness:
  "sprig_TxtFuncMap sample_lib ''toSlash'' = Some (Foreign 1) \<and>
   templateFuncs sample_target sample_lib sample_order ''toSlash'' =
     Some (Func1_string (filepath_ToSlash sample_lib)) \<and>
   templateFuncs sample_target sample_lib sample_order ''upper'' = Some (Foreign 0)"
  using registry_shadows_base [OF sample_order_covers, of sample_target sample_lib]
  by (simp add: taskFuncs_toSlash sample_lib_def taskFuncs_def taskFuncs_literal_def Let_def)

text \<open>
  Claim C9. The registry's \<open>OS\<close> and \<open>ARCH\<close> are functions of no argument whose value
  at every call is the build target's \<open>GOOS\<close> and \<open>GOARCH\<close>; \<open>exeExt\<close> returns
  \<open>.exe\<close> exactly when \<open>GOOS\<close> is \<open>windows\<close>, and the empty string otherwise.
\<close>

theorem OS_ARCH_exeExt_fixed:
  assumes "set order = dom (taskFuncs t l)"
  shows "(\<exists>f. templateFuncs t l order ''OS'' = Some (Func0_string f) \<and> (\<forall>u. f u = GOOS t)) \<and>
         (\<exists>f. templateFuncs t l order ''ARCH'' = Some (Func0_string f) \<and> (\<forall>u. f u = GOARCH t)) \<and>
         (\<exists>f. templateFuncs t l order ''exeExt'' = Some (Func0_string f) \<and>
              (\<forall>u. f u = (if GOOS t = ''windows'' then ''.exe'' else [])) \<and>
              (\<forall>u. (f u = ''.exe'') = (GOOS t = ''windows'')))"
  using assms by (simp add: templateFuncs_lookup taskFuncs_OS taskFuncs_ARCH taskFuncs_exeExt)

theorem OS_ARCH_exeExt_fixed_witness:
  "(\<exists>f. templateFuncs sample_target sample_lib sample_order ''OS'' = Some (Func0_string f) \<and>
        (\<forall>u. f u = ''linux'')) \<and>
   (\<exists>f. templateFuncs sample_target sample_lib sample_order ''ARCH'' = Some (Func0_string f) \<and>
        (\<forall>u. f u = ''amd64'')) \<and>
   (\<exists>f. templateFuncs sample_target sample_lib sample_order ''exeExt'' = Some (Func0_string f) \<and>
        (\<forall>u. f u = []))"
  using OS_ARCH_exeExt_fixed [OF sample_order_covers, of sample_target sample_lib]
  by (auto simp add: sample_target_def)

text \<open>
  Claim C10. Under each deprecated name the registry holds the very function it holds
  under the current name: \<open>FromSlash\<close> and \<open>fromSlash\<close>, \<open>ToSlash\<close> and
  \<open>toSlash\<close>, \<open>ExeExt\<close> and \<open>exeExt\<close>, so the two return equal results on every
  input.
\<close>

theorem deprecated_aliases_identical:
  assumes "set order = dom (taskFuncs t l)"
  shows "templateFuncs t l order ''FromSlash'' = templateFuncs t l order ''fromSlash'' \<and>
         templateFuncs t l order ''fromSlash'' = Some (Func1_string (\<lambda>path. filepath_FromSlash l path)) \<and>
         templateFuncs t l order ''ToSlash'' = templateFuncs t l order ''toSlash'' \<and>
         templateFuncs t l order ''toSlash'' = Some (Func1_string (\<lambda>path. filepath_ToSlash l path)) \<and>
         templateFuncs t l order ''ExeExt'' = templateFuncs t l order ''exeExt'' \<and>
         templateFuncs t l order ''exeExt'' =
           Some (Func0_string (\<lambda>u. if GOOS t = ''windows'' then ''.exe'' else []))"
  using assms
  by (simp add: templateFuncs_lookup taskFuncs_exeExt taskFuncs_ExeExt taskFuncs_fromSlash
      taskFuncs_FromSlash taskFuncs_toSlash taskFuncs_ToSlash)

theorem deprecated_aliases_identical_witness:
  "templateFuncs sample_target sample_lib sample_order ''FromSlash'' =
     Some (Func1_string (\<lambda>path. path)) \<and>
   templateFuncs sample_target sample_lib sample_order ''ToSlash'' =
     Some (Func1_string (\<lambda>path. path)) \<and>
   templateFuncs sample_target sample_lib sample_order ''ExeExt'' =
     Some (Func0_string (\<lambda>u. []))"
  using deprecated_aliases_identical [OF sample_order_covers, of sample_target sample_lib]
  by (simp add: sample_target_def sample_lib_def)

end
